theory Spec2Isabelle
  imports Main
begin

section \<open>Python exceptions\<close>

text \<open>
  Every object Python can raise is an instance of \<^verbatim>\<open>BaseException\<close>. The clause
  \<^verbatim>\<open>except Exception\<close> catches the instances of the subclass \<^verbatim>\<open>Exception\<close> only:
  \<^verbatim>\<open>KeyboardInterrupt\<close>, \<^verbatim>\<open>SystemExit\<close>, \<^verbatim>\<open>GeneratorExit\<close> and every class
  that derives from \<^verbatim>\<open>BaseException\<close> directly pass through it.
\<close>

datatype exc_class =
    NotImplementedError
  | AttributeError
  | OtherException string
  | KeyboardInterrupt
  | SystemExit
  | GeneratorExit
  | OtherBaseException string

fun issubclass_Exception :: "exc_class \<Rightarrow> bool" where
  "issubclass_Exception NotImplementedError = True"
| "issubclass_Exception AttributeError = True"
| "issubclass_Exception (OtherException n) = True"
| "issubclass_Exception KeyboardInterrupt = False"
| "issubclass_Exception SystemExit = False"
| "issubclass_Exception GeneratorExit = False"
| "issubclass_Exception (OtherBaseException n) = False"

record py_exc =
  exc_class :: exc_class
  exc_args :: "string list"

definition isinstance_Exception :: "py_exc \<Rightarrow> bool" where
  "isinstance_Exception x = issubclass_Exception (exc_class x)"

section \<open>Collaborators\<close>

text \<open>
  A call of a collaborator acts on the world outside the orchestrator (the published pull
  request, the git repository, the log sink) and either returns (\<open>None\<close>) or raises
  (\<open>Some x\<close>). The world is a type parameter: nothing is assumed about it.
\<close>

type_synonym 'w behaviour = "'w \<Rightarrow> py_exc option \<times> 'w"

record CompletionsRepo =
  model :: string

record RailService =
  completions_repo :: CompletionsRepo

text \<open>The three methods of \<^verbatim>\<open>PublishService\<close> that \<^verbatim>\<open>generate_pr\<close> calls.\<close>

record 'w PublishService =
  update :: "'w behaviour"
  publish_update :: "string \<Rightarrow> 'w behaviour"
  finalize :: "bool \<Rightarrow> 'w behaviour"

text \<open>
  The structlog logger: \<^verbatim>\<open>info(msg, event_=...)\<close>,
  \<^verbatim>\<open>exception(msg, event_=..., exc_info=...)\<close> and \<^verbatim>\<open>warning(msg, kwargs=...)\<close>.
  The keyword options are a dict, kept as an association list with values of any type \<open>'v\<close>.
\<close>

record ('e, 'v, 'w) BoundLogger =
  info :: "string \<Rightarrow> 'e \<Rightarrow> 'w behaviour"
  exception :: "string \<Rightarrow> 'e \<Rightarrow> py_exc \<Rightarrow> 'w behaviour"
  warning :: "string \<Rightarrow> (string \<times> 'v) list \<Rightarrow> 'w behaviour"

text \<open>The collaborators the base class only stores are references to objects.\<close>

type_synonym obj_ref = nat

record ('e, 'v, 'w) BrainAgentBase =
  rail_service :: RailService
  chain_service :: obj_ref
  diff_service :: obj_ref
  codegen_agent :: obj_ref
  pull_request_agent :: obj_ref
  commit_service :: obj_ref
  publish_service :: "'w PublishService"
  repo :: obj_ref
  log :: "('e, 'v, 'w) BoundLogger"

section \<open>Calls, traces and statements\<close>

text \<open>
  The calls the base class itself makes. A call is recorded when it is made, whether it
  then returns or raises. What a collaborator or the hook does inside its own call (further
  progress updates of the publish service, for instance) is part of its behaviour on the
  world and is not in the trace.
\<close>

datatype ('e, 'v) call =
    Update
  | PublishUpdate string
  | Finalize bool
  | LogInfo string 'e
  | LogException string 'e py_exc
  | LogWarning string "(string \<times> 'v) list"
  | RunGeneration 'e

text \<open>
  The state of one invocation: the orchestrator object, the event object, the world of
  the collaborators, and the calls made so far.
\<close>

record ('e, 'v, 'w) state =
  self_obj :: "('e, 'v, 'w) BrainAgentBase"
  event_obj :: 'e
  world :: 'w
  trace :: "('e, 'v) call list"

text \<open>A statement runs in a state and completes normally (\<open>None\<close>) or raises (\<open>Some x\<close>).\<close>

type_synonym ('e, 'v, 'w) stmt = "('e, 'v, 'w) state \<Rightarrow> py_exc option \<times> ('e, 'v, 'w) state"

definition skip :: "('e, 'v, 'w) stmt" where
  "skip s = (None, s)"

definition raise :: "py_exc \<Rightarrow> ('e, 'v, 'w) stmt" where
  "raise x s = (Some x, s)"

definition seq :: "('e, 'v, 'w) stmt \<Rightarrow> ('e, 'v, 'w) stmt \<Rightarrow> ('e, 'v, 'w) stmt" where
  "seq c1 c2 s = (case c1 s of (None, s') \<Rightarrow> c2 s' | (Some x, s') \<Rightarrow> (Some x, s'))"

text \<open>
  \<^verbatim>\<open>try: c except Exception as e: h(e)\<close>: the handler runs only for an instance of
  \<^verbatim>\<open>Exception\<close>; any other raised object propagates.
\<close>

definition try_except_Exception ::
  "('e, 'v, 'w) stmt \<Rightarrow> (py_exc \<Rightarrow> ('e, 'v, 'w) stmt) \<Rightarrow> ('e, 'v, 'w) stmt" where
  "try_except_Exception c h s =
     (case c s of
        (None, s') \<Rightarrow> (None, s')
      | (Some e, s') \<Rightarrow> if isinstance_Exception e then h e s' else (Some e, s'))"

text \<open>
  A call of a collaborator: the call is recorded, the collaborator acts on the world, and
  its outcome is the outcome of the statement.
\<close>

definition invoke :: "('e, 'v) call \<Rightarrow> 'w behaviour \<Rightarrow> ('e, 'v, 'w) stmt" where
  "invoke c beh s =
     (case beh (world s) of
        (r, w') \<Rightarrow> (r, s\<lparr>world := w', trace := trace s @ [c]\<rparr>))"

section \<open>The orchestrator\<close>

text \<open>
  The advisory message. The source's three warning signs are U+26A0 U+FE0F each, written
  here as their UTF-8 bytes.
\<close>

definition warning_sign :: string where
  "warning_sign = [CHR 0xE2, CHR 0x9A, CHR 0xA0, CHR 0xEF, CHR 0xB8, CHR 0x8F]"

definition backtick :: string where
  "backtick = [CHR 0x60]"

definition advisory :: string where
  "advisory =
     warning_sign @ warning_sign @ warning_sign
     @ '' Warning: Using '' @ backtick @ ''gpt-3.5-turbo'' @ backtick @ '' completion model. ''
     @ ''AutoPR is currently not optimized for this model. ''
     @ ''See https://github.com/irgolic/AutoPR/issues/65 for more details. ''
     @ ''In the mean time, if you have access to the '' @ backtick @ ''gpt-4'' @ backtick
     @ '' API, please use that instead. ''
     @ ''Please note that ChatGPT Plus does not give you access to the ''
     @ backtick @ ''gpt-4'' @ backtick @ '' API; ''
     @ ''you need to sign up on [the GPT-4 API waitlist](https://openai.com/waitlist/gpt-4-api). ''"

text \<open>
  The extension point \<^verbatim>\<open>_generate_pr(self, event)\<close> of a subclass: it reads the orchestrator
  and the event, acts on the world, and returns or raises. Its behaviour is a parameter:
  any function of this type is a possible override. An override that rebinds a field of the
  orchestrator or mutates the event object is outside this type.
\<close>

type_synonym ('e, 'v, 'w) hook = "('e, 'v, 'w) BrainAgentBase \<Rightarrow> 'e \<Rightarrow> 'w behaviour"


text \<open>The body of \<^verbatim>\<open>generate_pr\<close>, statement by statement.\<close>

definition publish_placeholder :: "('e, 'v, 'w) stmt" where
  "publish_placeholder s = invoke Update (update (publish_service (self_obj s))) s"

definition publish_warning :: "('e, 'v, 'w) stmt" where
  "publish_warning s =
     (if model (completions_repo (rail_service (self_obj s))) = ''gpt-3.5-turbo''
      then invoke (PublishUpdate advisory) (publish_update (publish_service (self_obj s)) advisory) s
      else skip s)"

definition log_info :: "string \<Rightarrow> ('e, 'v, 'w) stmt" where
  "log_info msg s = invoke (LogInfo msg (event_obj s)) (info (log (self_obj s)) msg (event_obj s)) s"

definition run_generation :: "('e, 'v, 'w) hook \<Rightarrow> ('e, 'v, 'w) stmt" where
  "run_generation hook s =
     invoke (RunGeneration (event_obj s)) (hook (self_obj s) (event_obj s)) s"

definition log_exception :: "string \<Rightarrow> py_exc \<Rightarrow> ('e, 'v, 'w) stmt" where
  "log_exception msg e s =
     invoke (LogException msg (event_obj s) e) (exception (log (self_obj s)) msg (event_obj s) e) s"

definition publish_finalize :: "bool \<Rightarrow> ('e, 'v, 'w) stmt" where
  "publish_finalize success s =
     invoke (Finalize success) (finalize (publish_service (self_obj s)) success) s"

definition on_failure :: "py_exc \<Rightarrow> ('e, 'v, 'w) stmt" where
  "on_failure e =
     seq (log_exception ''Failed to generate pull request'' e)
    (seq (publish_finalize False)
         (raise e))"

definition generate_pr_body :: "('e, 'v, 'w) hook \<Rightarrow> ('e, 'v, 'w) stmt" where
  "generate_pr_body hook =
     seq publish_placeholder
    (seq publish_warning
    (seq (log_info ''Generating changes'')
    (seq (try_except_Exception (run_generation hook) on_failure)
    (seq (log_info ''Generated changes'')
         (publish_finalize True)))))"

text \<open>
  \<^verbatim>\<open>generate_pr(self, event)\<close> of a class whose \<^verbatim>\<open>_generate_pr\<close> is \<open>hook\<close>, started in
  world \<open>w\<close> with an empty trace. The result is the outcome (\<open>None\<close>: returned, \<open>Some x\<close>:
  raised \<open>x\<close>) and the state at exit.
\<close>

definition generate_pr ::
  "('e, 'v, 'w) hook \<Rightarrow> ('e, 'v, 'w) BrainAgentBase \<Rightarrow> 'e \<Rightarrow> 'w
     \<Rightarrow> py_exc option \<times> ('e, 'v, 'w) state" where
  "generate_pr hook self event w =
     generate_pr_body hook \<lparr>self_obj = self, event_obj = event, world = w, trace = []\<rparr>"

section \<open>Construction\<close>


section \<open>Vocabulary of the properties\<close>


















text \<open>A statement that leaves the orchestrator object and the event object as they were.\<close>

definition frame_preserving :: "('e, 'v, 'w) stmt \<Rightarrow> bool" where
  "frame_preserving c \<longleftrightarrow>
     (\<forall>s. self_obj (snd (c s)) = self_obj s \<and> event_obj (snd (c s)) = event_obj s)"




text \<open>The eight collaborator handles of an orchestrator.\<close>

definition handles ::
  "('e, 'v, 'w) BrainAgentBase
     \<Rightarrow> RailService \<times> obj_ref \<times> obj_ref \<times> obj_ref \<times> obj_ref \<times> obj_ref \<times> 'w PublishService \<times> obj_ref" where
  "handles self =
     (rail_service self, chain_service self, diff_service self, codegen_agent self,
      pull_request_agent self, commit_service self, publish_service self, repo self)"


section \<open>Concrete collaborators\<close>














section \<open>Running statements\<close>













section \<open>The success path\<close>



section \<open>The failure path\<close>









section \<open>Ordering and the terminal signal\<close>







section \<open>The model-capability advisory\<close>



section \<open>The base class\<close>



section \<open>The frame of an invocation\<close>

text \<open>
  No statement of \<^verbatim>\<open>generate_pr\<close> assigns to a field of the orchestrator or to the event:
  each atomic statement is a call, and a call changes the world and the trace only.
\<close>

lemma frame_invoke: "frame_preserving (\<lambda>s. invoke (c s) (beh s) s)"
  by (simp add: frame_preserving_def invoke_def split_beta)

lemma frame_skip: "frame_preserving skip"
  by (simp add: frame_preserving_def skip_def)

lemma frame_raise: "frame_preserving (raise x)"
  by (simp add: frame_preserving_def raise_def)

lemma frame_seq:
  assumes "frame_preserving c1" and "frame_preserving c2"
  shows "frame_preserving (seq c1 c2)"
  unfolding frame_preserving_def
proof (intro allI)
  fix s
  show "self_obj (snd (seq c1 c2 s)) = self_obj s \<and> event_obj (snd (seq c1 c2 s)) = event_obj s"
  proof (cases "c1 s")
    case (Pair r s1)
    with assms(1) have s1: "self_obj s1 = self_obj s" "event_obj s1 = event_obj s"
      by (auto simp: frame_preserving_def dest: spec [of _ s])
    show ?thesis
    proof (cases r)
      case None
      with Pair s1 assms(2) show ?thesis
        by (auto simp: seq_def frame_preserving_def dest: spec [of _ s1])
    next
      case (Some x)
      with Pair s1 show ?thesis by (simp add: seq_def)
    qed
  qed
qed

lemma frame_try:
  assumes "frame_preserving c" and "\<And>e. frame_preserving (h e)"
  shows "frame_preserving (try_except_Exception c h)"
  unfolding frame_preserving_def
proof (intro allI)
  fix s
  show "self_obj (snd (try_except_Exception c h s)) = self_obj s
      \<and> event_obj (snd (try_except_Exception c h s)) = event_obj s"
  proof (cases "c s")
    case (Pair r s1)
    with assms(1) have s1: "self_obj s1 = self_obj s" "event_obj s1 = event_obj s"
      by (auto simp: frame_preserving_def dest: spec [of _ s])
    show ?thesis
    proof (cases r)
      case None
      with Pair s1 show ?thesis by (simp add: try_except_Exception_def)
    next
      case (Some e)
      from assms(2) [of e] have "self_obj (snd (h e s1)) = self_obj s1"
        "event_obj (snd (h e s1)) = event_obj s1"
        by (auto simp: frame_preserving_def)
      with Some Pair s1 show ?thesis by (simp add: try_except_Exception_def)
    qed
  qed
qed

lemma frame_publish_placeholder: "frame_preserving publish_placeholder"
  using frame_invoke [of "\<lambda>s. Update" "\<lambda>s. update (publish_service (self_obj s))"]
  by (simp add: frame_preserving_def publish_placeholder_def)

lemma frame_publish_warning: "frame_preserving publish_warning"
  by (simp add: frame_preserving_def publish_warning_def skip_def invoke_def split_beta)

lemma frame_log_info: "frame_preserving (log_info msg)"
  using frame_invoke [of "\<lambda>s. LogInfo msg (event_obj s)"
      "\<lambda>s. info (log (self_obj s)) msg (event_obj s)"]
  by (simp add: frame_preserving_def log_info_def)

lemma frame_run_generation: "frame_preserving (run_generation hook)"
  using frame_invoke [of "\<lambda>s. RunGeneration (event_obj s)"
      "\<lambda>s. hook (self_obj s) (event_obj s)"]
  by (simp add: frame_preserving_def run_generation_def)

lemma frame_log_exception: "frame_preserving (log_exception msg e)"
  using frame_invoke [of "\<lambda>s. LogException msg (event_obj s) e"
      "\<lambda>s. exception (log (self_obj s)) msg (event_obj s) e"]
  by (simp add: frame_preserving_def log_exception_def)

lemma frame_publish_finalize: "frame_preserving (publish_finalize success)"
  using frame_invoke [of "\<lambda>s. Finalize success"
      "\<lambda>s. finalize (publish_service (self_obj s)) success"]
  by (simp add: frame_preserving_def publish_finalize_def)

lemma frame_on_failure: "frame_preserving (on_failure e)"
  unfolding on_failure_def
  by (intro frame_seq frame_log_exception frame_publish_finalize frame_raise)

lemma frame_generate_pr_body: "frame_preserving (generate_pr_body hook)"
  unfolding generate_pr_body_def
  by (intro frame_seq frame_try frame_publish_placeholder frame_publish_warning frame_log_info
      frame_run_generation frame_on_failure frame_publish_finalize)

text \<open>
  Claim C8. For every event, every hook and every behaviour of the publish service and the
  logger, the orchestrator object at exit is the one at entry, so each of its eight
  collaborator handles is the one stored at construction, and the event at exit is the
  event at entry. This is the layer of \<^verbatim>\<open>generate_pr\<close> itself: the hook and the other
  collaborators act on the world.
\<close>

theorem generate_pr_frame:
  "self_obj (snd (generate_pr hook self event w)) = self
   \<and> handles (self_obj (snd (generate_pr hook self event w))) = handles self
   \<and> event_obj (snd (generate_pr hook self event w)) = event"
  using frame_generate_pr_body [of hook]
  by (simp add: frame_preserving_def generate_pr_def)

section \<open>Construction with unused options\<close>



end
